theory Spec2Isabelle
  imports Complex_Main
begin

section \<open>Python values\<close>

text \<open>
  A Python \<open>str\<close> is modelled as a \<open>string\<close>: a list of characters, each a code point
  below 256.  A Python \<open>float\<close> that the code computes with (a distance, a similarity,
  the accept threshold, a vector component) is a \<open>real\<close>: the arithmetic is the algebraic
  one, rounding is not modelled.  A \<open>float\<close> that the code only prints (the reputation
  score) is carried by the text that \<open>str()\<close> prints for it.
\<close>

datatype py_exception =
    FaceRecognitionError string
  | ValueError string
  | OtherException string

text \<open>\<open>str(e)\<close> of an exception built from one message.\<close>

fun exception_str :: "py_exception \<Rightarrow> string" where
  "exception_str (FaceRecognitionError m) = m"
| "exception_str (ValueError m) = m"
| "exception_str (OtherException m) = m"

text \<open>\<open>str(n)\<close> of a non-negative \<open>int\<close>, and of any \<open>int\<close>.\<close>

fun digits :: "nat \<Rightarrow> string" where
  "digits n =
     (if n < 10 then [''0123456789'' ! n]
      else digits (n div 10) @ [''0123456789'' ! (n mod 10)])"

definition str_int :: "int \<Rightarrow> string" where
  "str_int i = (if i < 0 then ''-'' @ digits (nat (- i)) else digits (nat i))"

text \<open>
  The values a metadata dictionary can hold (\<open>Dict[str, Any]\<close>).  \<open>bool\<close> is a subclass
  of \<open>int\<close> in Python, so it takes the numeric branch of \<open>isinstance\<close>.  A float is given
  by the text \<open>str()\<close> prints for it (\<open>8.0\<close>, \<open>1e-05\<close>, \<open>inf\<close>) and any other object by
  the text its \<open>__str__\<close> returns.
\<close>

datatype py_value =
    PyStr string
  | PyBool bool
  | PyInt int
  | PyFloat string
  | PyObject string

fun py_str :: "py_value \<Rightarrow> string" where
  "py_str (PyStr s) = s"
| "py_str (PyBool b) = (if b then ''True'' else ''False'')"
| "py_str (PyInt i) = str_int i"
| "py_str (PyFloat t) = t"
| "py_str (PyObject t) = t"


section \<open>String methods\<close>

abbreviation NUL :: char where "NUL \<equiv> CHR 0x00"
abbreviation CR :: char where "CR \<equiv> CHR 0x0D"
abbreviation LF :: char where "LF \<equiv> CHR 0x0A"

text \<open>\<open>s.replace(old, new)\<close> for a one-character \<open>old\<close>.\<close>

definition replace :: "char \<Rightarrow> string \<Rightarrow> string \<Rightarrow> string" where
  "replace old new s = concat (map (\<lambda>c. if c = old then new else [c]) s)"

text \<open>
  \<open>str.isspace\<close> on the code points below 256: tab, LF, VT, FF, CR, the four separators
  0x1C to 0x1F, space, NEL and the no-break space.
\<close>

definition is_space :: "char \<Rightarrow> bool" where
  "is_space c =
     (c \<in> set [CHR 0x09, CHR 0x0A, CHR 0x0B, CHR 0x0C, CHR 0x0D,
               CHR 0x1C, CHR 0x1D, CHR 0x1E, CHR 0x1F, CHR '' '',
               CHR 0x85, CHR 0xA0])"

text \<open>\<open>s.strip()\<close>: leading and trailing whitespace removed.\<close>

definition strip :: "string \<Rightarrow> string" where
  "strip s = rev (dropWhile is_space (rev (dropWhile is_space s)))"

section \<open>ChromaService: metadata cleaning\<close>

text \<open>
  The loop body of \<open>add_employee_embedding\<close> (and of \<open>update_employee_embedding\<close>):
  \<^verbatim>\<open>
  if isinstance(value, str):
      clean_value = str(value).replace('\x00', '').replace('\r', '').replace('\n', ' ').strip()
  elif isinstance(value, (int, float)):
      clean_metadata[key] = str(value)
  else:
      clean_metadata[key] = str(value)
  \<close>
\<close>

fun clean_value :: "py_value \<Rightarrow> string" where
  "clean_value (PyStr s) = strip (replace LF '' '' (replace CR [] (replace NUL [] s)))"
| "clean_value (PyBool b) = py_str (PyBool b)"
| "clean_value (PyInt i) = py_str (PyInt i)"
| "clean_value (PyFloat t) = py_str (PyFloat t)"
| "clean_value (PyObject t) = py_str (PyObject t)"

text \<open>
  A dictionary is an association list in insertion order, its keys distinct.  The loop
  \<open>for key, value in metadata.items()\<close> fills \<open>clean_metadata\<close> key by key.
\<close>

type_synonym metadata = "(string \<times> py_value) list"
type_synonym clean_metadata = "(string \<times> string) list"

fun clean_metadata :: "metadata \<Rightarrow> clean_metadata" where
  "clean_metadata [] = []"
| "clean_metadata ((key, v) # rest) = (key, clean_value v) # clean_metadata rest"




section \<open>ChromaService: the collection\<close>

text \<open>
  The ChromaDB collection is an external library object.  Its state is a map from the
  document id to the stored entry.  What one call to it does is an input of the model:
  whether the call (or \<open>_get_collection\<close> before it) raises, and what \<open>Collection.add\<close>
  does with an id that is already stored.  ChromaDB's \<open>add\<close> does not replace a stored
  entry: it skips the id (\<open>Skipped\<close>; older releases raise a duplicate-id error,
  \<open>Rejected\<close>); replacing is what \<open>Collection.update\<close> and \<open>Collection.upsert\<close> do.
  \<open>Replaced\<close> stands for a collection whose \<open>add\<close> would overwrite.  A call that raises
  leaves the collection as it was.
\<close>

record entry =
  entry_embedding :: "real list"
  entry_metadata :: clean_metadata

type_synonym collection = "string \<rightharpoonup> entry"

datatype existing_id = Skipped | Rejected | Replaced

record chroma =
  unavailable :: bool
  on_existing :: existing_id

definition collection_add ::
  "chroma \<Rightarrow> collection \<Rightarrow> string \<Rightarrow> real list \<Rightarrow> clean_metadata \<Rightarrow> py_exception + collection"
where
  "collection_add db coll doc_id emb md =
     (if unavailable db then Inl (OtherException ''collection unavailable'')
      else if doc_id \<in> dom coll then
        (case on_existing db of
           Skipped \<Rightarrow> Inr coll
         | Rejected \<Rightarrow> Inl (OtherException ''duplicate id'')
         | Replaced \<Rightarrow> Inr (coll(doc_id \<mapsto> \<lparr>entry_embedding = emb, entry_metadata = md\<rparr>)))
      else Inr (coll(doc_id \<mapsto> \<lparr>entry_embedding = emb, entry_metadata = md\<rparr>)))"

text \<open>
  \<open>ChromaService.add_employee_embedding\<close>: clean the metadata, call \<open>collection.add\<close>,
  return \<open>True\<close>; any exception is logged and turned into \<open>False\<close>.
\<close>

definition add_employee_embedding ::
  "chroma \<Rightarrow> collection \<Rightarrow> string \<Rightarrow> real list \<Rightarrow> metadata \<Rightarrow> bool \<times> collection"
where
  "add_employee_embedding db coll employee_uuid embedding metadata =
     (case collection_add db coll employee_uuid embedding (clean_metadata metadata) of
        Inr coll' \<Rightarrow> (True, coll')
      | Inl e \<Rightarrow> (False, coll))"

section \<open>ChromaService: the nearest-neighbour query\<close>

text \<open>
  What \<open>collection.query\<close> returns: one list per query embedding.  The query itself is the
  library's; its outcome (a result or an exception) is an input of the model.
\<close>

record query_result =
  ids :: "string list list"
  distances :: "real list list"
  metadatas :: "clean_metadata list list"

record match_result =
  id' :: string
  distance :: real
  similarity :: real
  metadata :: clean_metadata

text \<open>\<open>xs[0][0]\<close>; \<open>None\<close> where Python raises \<open>IndexError\<close>.\<close>

fun item00 :: "'a list list \<Rightarrow> 'a option" where
  "item00 ((x # _) # _) = Some x"
| "item00 _ = None"

text \<open>
  \<open>ChromaService.search_embedding\<close>.  \<open>None\<close> is returned when the result holds no id and
  also, by the \<open>except Exception\<close> clause, when the query or an index into the result
  raises.
\<close>

definition search_embedding :: "py_exception + query_result \<Rightarrow> match_result option" where
  "search_embedding query =
     (case query of
        Inl e \<Rightarrow> None
      | Inr results \<Rightarrow>
          (case ids results of
             [] \<Rightarrow> None
           | first # _ \<Rightarrow>
               if length first = 0 then None
               else
                 (case (item00 (ids results), item00 (distances results),
                        if metadatas results \<noteq> [] then item00 (metadatas results) else Some []) of
                    (Some employee_id, Some d, Some md) \<Rightarrow>
                      Some \<lparr>id' = employee_id, distance = d,
                            similarity = 1 - (d / 2), metadata = md\<rparr>
                  | _ \<Rightarrow> None)))"

section \<open>FaceService\<close>

text \<open>
  \<open>sklearn.preprocessing.normalize\<close> on one row: division by the Euclidean norm, a zero
  norm replaced by one.
\<close>

definition l2_normalize :: "real list \<Rightarrow> real list" where
  "l2_normalize v =
     (let norm = sqrt (sum_list (map (\<lambda>x. x * x) v))
      in map (\<lambda>x. x / (if norm = 0 then 1 else norm)) v)"

text \<open>
  The body of the \<open>try\<close> block of \<open>extract_embedding\<close>.  \<open>DeepFace.represent\<close> is called
  once; its outcome is an input: an exception, or the embedding of each detected face.
\<close>

definition extract_try :: "py_exception + real list list \<Rightarrow> py_exception + real list" where
  "extract_try represent =
     (case represent of
        Inl e \<Rightarrow> Inl e
      | Inr embeddings \<Rightarrow>
          if length embeddings = 0 then
            Inl (FaceRecognitionError ''No face detected in the image'')
          else if length embeddings > 1 then
            Inl (FaceRecognitionError
                  (''Multiple faces detected ('' @ str_int (int (length embeddings)) @ ''). ''
                   @ ''Please provide an image with a single face.''))
          else Inr (l2_normalize (hd embeddings)))"

text \<open>
  \<open>FaceService.extract_embedding\<close>.  The two handlers follow the \<open>try\<close> block in the
  source's order: \<open>except ValueError\<close>, then \<open>except Exception\<close>, which also catches the
  \<open>FaceRecognitionError\<close>s raised inside the block.
\<close>

definition extract_embedding ::
  "bool \<Rightarrow> string \<Rightarrow> py_exception + real list list \<Rightarrow> py_exception + real list"
where
  "extract_embedding path_exists image_path represent =
     (if \<not> path_exists then
        Inl (FaceRecognitionError (''Image file not found: '' @ image_path))
      else
        (case extract_try represent of
           Inr normalized_embedding \<Rightarrow> Inr normalized_embedding
         | Inl (ValueError m) \<Rightarrow>
             Inl (FaceRecognitionError
                   ''No face detected in the image. Please provide a clear face photo.'')
         | Inl e \<Rightarrow>
             Inl (FaceRecognitionError (''Failed to process image: '' @ exception_str e))))"

section \<open>The employee records\<close>

text \<open>
  The \<open>Employee\<close> model, without its two timestamps.  \<open>uuid\<close> is the primary key, written
  as the text \<open>str(employee.uuid)\<close> gives; \<open>image_path\<close> is \<open>employee.image.path\<close>.  The
  table is a map from the key to the row.  \<open>form.save()\<close> either raises and inserts no
  row, or inserts the row of the employee it returns; \<open>employee.delete()\<close> removes the
  row.
\<close>

record employee =
  uuid :: string
  full_name :: string
  phone :: string
  email :: string
  employer_name :: string
  position :: string
  reputation_score :: string
  notes' :: "string option"
  image_path :: string

type_synonym records = "string \<rightharpoonup> employee"

subsection \<open>The primary key\<close>

text \<open>
  The key is a \<open>UUIDField\<close>.  A lookup \<open>Employee.objects.get(uuid=text)\<close> first turns
  the text into a UUID, with \<open>uuid.UUID(hex=text)\<close> of the standard library, and raises a
  \<open>ValidationError\<close> where that raises \<open>ValueError\<close>; the row it then looks for is the one
  of that UUID.  The definitions below follow \<open>UUID.__init__\<close>, \<open>int(text, 16)\<close> and
  \<open>UUID.__str__\<close>.
\<close>

text \<open>\<open>s.replace(old, '')\<close> for a non-empty \<open>old\<close>: its occurrences are removed, left to right.\<close>

function remove_text :: "string \<Rightarrow> string \<Rightarrow> string" where
  "remove_text old [] = []"
| "remove_text old (c # s) =
     (if old \<noteq> [] \<and> take (length old) (c # s) = old
      then remove_text old (drop (length old) (c # s))
      else c # remove_text old s)"
  by pat_completeness auto
termination by (relation "measure (\<lambda>(old, s). length s)") auto

text \<open>\<open>s.strip(chars)\<close>: the leading and trailing characters that are in \<open>chars\<close> removed.\<close>

definition strip_chars :: "string \<Rightarrow> string \<Rightarrow> string" where
  "strip_chars chars s =
     rev (dropWhile (\<lambda>c. c \<in> set chars) (rev (dropWhile (\<lambda>c. c \<in> set chars) s)))"

text \<open>
  \<open>int(s, 16)\<close> on a \<open>str\<close>, \<open>None\<close> where it raises \<open>ValueError\<close>.  The whitespace that
  \<open>int\<close> skips at both ends is tab, LF, VT, FF, CR, space, NEL and the no-break space (not
  the separators 0x1C to 0x1F).  Then come an optional sign, an optional prefix \<open>0x\<close> or
  \<open>0X\<close> with at most one underscore after it, and the digits: at least one, with single
  underscores allowed between two of them.
\<close>

definition int_space :: "char \<Rightarrow> bool" where
  "int_space c =
     (c \<in> set [CHR 0x09, CHR 0x0A, CHR 0x0B, CHR 0x0C, CHR 0x0D, CHR '' '',
               CHR 0x85, CHR 0xA0])"

definition hex_digit :: "char \<Rightarrow> bool" where
  "hex_digit c = (c \<in> set ''0123456789abcdefABCDEF'')"

text \<open>The value of a hexadecimal digit: its position among the digits of its case.\<close>

definition hex_value :: "char \<Rightarrow> int" where
  "hex_value c =
     int (length (takeWhile (\<lambda>d. d \<noteq> c)
            (if c \<in> set ''0123456789abcdef'' then ''0123456789abcdef''
             else ''0123456789ABCDEF'')))"

fun doubled_underscore :: "string \<Rightarrow> bool" where
  "doubled_underscore (a # b # s) =
     (a = CHR ''_'' \<and> b = CHR ''_'' \<or> doubled_underscore (b # s))"
| "doubled_underscore s = False"

definition int16 :: "string \<Rightarrow> int option" where
  "int16 s =
     (let s1 = dropWhile int_space s;
          s2 = (if take 1 s1 = ''+'' \<or> take 1 s1 = ''-'' then drop 1 s1 else s1);
          s3 = (if take 2 s2 = ''0x'' \<or> take 2 s2 = ''0X''
                then (if take 1 (drop 2 s2) = ''_'' then drop 3 s2 else drop 2 s2)
                else s2);
          body = takeWhile (\<lambda>c. hex_digit c \<or> c = CHR ''_'') s3;
          rest = dropWhile (\<lambda>c. hex_digit c \<or> c = CHR ''_'') s3
      in
        if body = [] \<or> hd body = CHR ''_'' \<or> last body = CHR ''_'' \<or> doubled_underscore body
        then None
        else if dropWhile int_space rest = [] then
          (let v = foldl (\<lambda>a c. 16 * a + hex_value c) 0 (filter (\<lambda>c. c \<noteq> CHR ''_'') body)
           in Some (if take 1 s1 = ''-'' then - v else v))
        else None)"

text \<open>
  \<open>uuid.UUID(hex=text).int\<close>, \<open>None\<close> where the constructor raises \<open>ValueError\<close>: the
  prefixes \<open>urn:\<close> and \<open>uuid:\<close>, the braces at both ends and the hyphens are removed, what
  is left must have 32 characters and be read by \<open>int(hex, 16)\<close> as a number from 0 to
  \<open>2 ^ 128 - 1\<close>.
\<close>

definition uuid_int :: "string \<Rightarrow> int option" where
  "uuid_int text =
     (let hex = remove_text ''uuid:'' (remove_text ''urn:'' text);
          hex = remove_text ''-'' (strip_chars ''{}'' hex)
      in
        if length hex = 32 then
          (case int16 hex of
             None \<Rightarrow> None
           | Some n \<Rightarrow> if 0 \<le> n \<and> n < 2 ^ 128 then Some n else None)
        else None)"

text \<open>\<open>str\<close> of the UUID of a number: \<open>'%032x' % n\<close>, cut as 8-4-4-4-12.\<close>

definition uuid_str :: "int \<Rightarrow> string" where
  "uuid_str n =
     (let hex = map (\<lambda>i. ''0123456789abcdef'' ! nat (n div 16 ^ (31 - i) mod 16)) [0..<32]
      in take 8 hex @ ''-'' @ take 4 (drop 8 hex) @ ''-'' @ take 4 (drop 12 hex) @ ''-''
         @ take 4 (drop 16 hex) @ ''-'' @ drop 20 hex)"

text \<open>
  \<open>UUIDField.to_python\<close> on a text: the UUID, written as \<open>str\<close> gives it (the key of the
  table), or \<open>None\<close> where it raises \<open>ValidationError\<close>.
\<close>

definition to_python :: "string \<Rightarrow> string option" where
  "to_python text = map_option uuid_str (uuid_int text)"

section \<open>Views\<close>

text \<open>What a view reads off the request: the method, and whether the bound form is valid.\<close>

record request =
  method_post :: bool
  form_valid :: bool

subsection \<open>add_employee\<close>





subsection \<open>verify_employee\<close>

text \<open>
  The media storage is the set of the names stored.  One call is given: the name
  \<open>default_storage.save\<close> returns for the probe, \<open>MEDIA_ROOT\<close>, the outcome of
  \<open>DeepFace.represent\<close> on the probe, the outcome of \<open>collection.query\<close>,
  \<open>settings.SIMILARITY_THRESHOLD\<close>, and the text that \<open>str\<close> gives for the \<open>ValidationError\<close>
  of a value that is not a UUID (the message of the field in the active language, around
  the value).
\<close>

type_synonym storage = "string set"

record verification =
  saved_name :: string
  media_root :: string
  probe_faces :: "py_exception + real list list"
  query :: "py_exception + query_result"
  threshold :: real
  validation_error_text :: "string \<Rightarrow> string"

text \<open>
  The response: \<open>result.html\<close> with \<open>match_found\<close> true (the employee, the similarity, the
  threshold, the confidence); \<open>result.html\<close> with \<open>match_found\<close> false and the similarity
  (below the threshold); \<open>result.html\<close> with \<open>match_found\<close> false and only a message (no
  match result); or the page \<open>verify_employee.html\<close> with the text given to
  \<open>messages.error\<close>, if any.  The formatted percentage texts are left out.
\<close>

datatype verify_response =
    ResultMatch employee real real string
  | ResultBelowThreshold real real
  | ResultNoMatch string
  | VerifyPage "string option"

fun verify_error :: "py_exception \<Rightarrow> string" where
  "verify_error (FaceRecognitionError m) = m"
| "verify_error e = ''An error occurred during verification: '' @ exception_str e"

text \<open>
  The branches on \<open>match_result\<close>, lines 138 to 187 of the view.  In
  \<open>Employee.objects.get(uuid=match_result['id'])\<close> an id that is not the text of a UUID
  raises \<open>ValidationError\<close>: \<open>except Employee.DoesNotExist\<close> does not catch it, and the outer
  \<open>except Exception\<close> reports it.  Otherwise the row of that UUID is returned, or
  \<open>Employee.DoesNotExist\<close> is raised when the table has none.
\<close>

definition match_response ::
  "match_result option \<Rightarrow> real \<Rightarrow> (string \<Rightarrow> string) \<Rightarrow> records \<Rightarrow> verify_response"
where
  "match_response match_result thr error_text recs =
     (case match_result of
        None \<Rightarrow> ResultNoMatch ''No matching employee found in the database.''
      | Some m \<Rightarrow>
          if similarity m \<ge> thr then
            (case to_python (id' m) of
               None \<Rightarrow> VerifyPage (Some (verify_error (OtherException (error_text (id' m)))))
             | Some key \<Rightarrow>
                 (case recs key of
                    Some employee \<Rightarrow>
                      ResultMatch employee (similarity m) thr
                        (if similarity m \<ge> 0.8 then ''High'' else ''Medium'')
                  | None \<Rightarrow>
                      VerifyPage
                        (Some ''Match found in facial database but employee record not found.'')))
          else ResultBelowThreshold (similarity m) thr)"

text \<open>The \<open>finally\<close> clause: \<open>if default_storage.exists(temp_path): default_storage.delete(temp_path)\<close>.\<close>

definition finally_delete :: "string \<Rightarrow> storage \<Rightarrow> storage" where
  "finally_delete temp_path st = (if temp_path \<in> st then st - {temp_path} else st)"

definition verify_employee ::
  "request \<Rightarrow> verification \<Rightarrow> records \<Rightarrow> storage \<Rightarrow> verify_response \<times> storage"
where
  "verify_employee request env recs st =
     (if \<not> method_post request \<or> \<not> form_valid request then (VerifyPage None, st)
      else
        let temp_path = saved_name env;
            st1 = insert temp_path st;
            full_temp_path = media_root env @ ''/'' @ temp_path
        in
          (case extract_embedding (temp_path \<in> st1) full_temp_path (probe_faces env) of
             Inl e \<Rightarrow> (VerifyPage (Some (verify_error e)), finally_delete temp_path st1)
           | Inr query_embedding \<Rightarrow>
               let match_result = search_embedding (query env);
                   st2 = st1 - {temp_path}
               in (match_response match_result (threshold env) (validation_error_text env) recs,
                   finally_delete temp_path st2)))"

section \<open>Example inputs\<close>

text \<open>The name \<open>"Te\x00st\r\n"\<close>.\<close>

definition name_with_controls :: string where
  "name_with_controls = [CHR ''T'', CHR ''e'', NUL, CHR ''s'', CHR ''t'', CR, LF]"

definition chroma_up :: chroma where
  "chroma_up = \<lparr>unavailable = False, on_existing = Skipped\<rparr>"





text \<open>A query result with one candidate at distance 0.3.\<close>

definition example_query_result :: query_result where
  "example_query_result =
     \<lparr>ids = [[''u1'']], distances = [[0.3]],
      metadatas = [[[(''full_name'', ''Test'')]]]\<rparr>"

text \<open>What \<open>DeepFace.represent\<close> returns for a photo with two faces.\<close>

definition two_faces :: "real list list" where
  "two_faces = [[0.1, 0.2], [0.3, 0.4]]"




text \<open>A valid POST; a photo with one face; an employee; two enrolment calls.\<close>

definition post_request :: request where
  "post_request = \<lparr>method_post = True, form_valid = True\<rparr>"

definition one_face :: "real list list" where
  "one_face = [[1, 0]]"

definition example_employee :: employee where
  "example_employee =
     \<lparr>uuid = ''u1'', full_name = ''Jane Smith'', phone = ''+1234567890'',
      email = ''jane@example.com'', employer_name = ''Acme Corp'', position = ''Engineer'',
      reputation_score = ''8.0'', notes' = None,
      image_path = ''/srv/media/employee_photos/jane.jpg''\<rparr>"




text \<open>
  The text of a UUID, as \<open>str(uuid.uuid4())\<close> gives one, and an employee with this key.
\<close>

definition jane_uuid :: string where
  "jane_uuid = ''6f1c2a9e-0b7d-4c3a-9e21-5d8f0a4b7c10''"

definition enrolled_employee :: employee where
  "enrolled_employee = example_employee\<lparr>uuid := jane_uuid\<rparr>"

text \<open>
  A text for the \<open>ValidationError\<close> of a value: the English message, with ASCII quotation
  marks around the value.
\<close>

definition english_error_text :: "string \<Rightarrow> string" where
  "english_error_text v =
     ''['' @ [CHR 0x22, CHR 0x27] @ v @ [CHR 0x27] @ '' is not a valid UUID.'' @ [CHR 0x22] @ '']''"

text \<open>Query results and verification calls: a close candidate, an empty index, a failing
  query, and a probe without a face.\<close>

definition close_query_result :: query_result where
  "close_query_result =
     \<lparr>ids = [[''6f1c2a9e-0b7d-4c3a-9e21-5d8f0a4b7c10'']], distances = [[0.2]],
      metadatas = [[[(''full_name'', ''Jane Smith'')]]]\<rparr>"

definition empty_query_result :: query_result where
  "empty_query_result = \<lparr>ids = [[]], distances = [[]], metadatas = [[]]\<rparr>"

definition verification_match :: verification where
  "verification_match =
     \<lparr>saved_name = ''temp/probe.jpg'', media_root = ''/srv/media'',
      probe_faces = Inr one_face, query = Inr close_query_result, threshold = 0.65,
      validation_error_text = english_error_text\<rparr>"

definition verification_empty_index :: verification where
  "verification_empty_index =
     \<lparr>saved_name = ''temp/probe.jpg'', media_root = ''/srv/media'',
      probe_faces = Inr one_face, query = Inr empty_query_result, threshold = 0.65,
      validation_error_text = english_error_text\<rparr>"

definition verification_query_down :: verification where
  "verification_query_down =
     \<lparr>saved_name = ''temp/probe.jpg'', media_root = ''/srv/media'',
      probe_faces = Inr one_face,
      query = Inl (OtherException ''could not connect to the index''), threshold = 0.65,
      validation_error_text = english_error_text\<rparr>"

definition verification_no_face :: verification where
  "verification_no_face =
     \<lparr>saved_name = ''temp/probe.jpg'', media_root = ''/srv/media'',
      probe_faces = Inl (ValueError ''Face could not be detected''),
      query = Inr close_query_result, threshold = 0.65,
      validation_error_text = english_error_text\<rparr>"

text \<open>The match that \<open>search_embedding\<close> returns for the close candidate.\<close>

definition close_match :: match_result where
  "close_match =
     \<lparr>id' = ''6f1c2a9e-0b7d-4c3a-9e21-5d8f0a4b7c10'', distance = 0.2, similarity = 0.9,
      metadata = [(''full_name'', ''Jane Smith'')]\<rparr>"

section \<open>Facts about the string methods\<close>



lemma clean_name_with_controls:
  "strip (replace LF '' '' (replace CR [] (replace NUL [] name_with_controls))) = ''Test''"
  by (simp add: name_with_controls_def strip_def replace_def is_space_def)










section \<open>Metadata cleaning: the worked example\<close>

text \<open>
  C5 (as amended).  Cleaning the metadata \<open>{"full_name": "Te\x00st\r\n"}\<close> gives
  \<open>{"full_name": "Test"}\<close>, and that is the value stored with a new id: NUL and CR are
  removed, LF becomes a space, and the final \<open>strip()\<close> removes that trailing space.
\<close>

theorem clean_metadata_name_with_controls:
  "clean_metadata [(''full_name'', PyStr name_with_controls)] = [(''full_name'', ''Test'')]
   \<and> add_employee_embedding chroma_up Map.empty u emb [(''full_name'', PyStr name_with_controls)]
       = (True, [u \<mapsto> \<lparr>entry_embedding = emb, entry_metadata = [(''full_name'', ''Test'')]\<rparr>])"
  by (simp add: clean_name_with_controls add_employee_embedding_def collection_add_def
        chroma_up_def)

text \<open>The value with the trailing space is not what is written.\<close>

theorem trailing_space_counterexample:
  "clean_metadata [(''full_name'', PyStr name_with_controls)] \<noteq> [(''full_name'', ''Test '')]"
  by (simp add: clean_name_with_controls)

section \<open>Metadata cleaning: what is written\<close>




section \<open>The distance of the nearest neighbour and its similarity\<close>

lemma item00_Some: "item00 xs = Some x \<Longrightarrow> \<exists>r rs. xs = (x # r) # rs"
  by (cases xs rule: item00.cases) auto

lemma search_embedding_candidate:
  assumes "item00 (ids results) = Some employee_id"
    and "item00 (distances results) = Some d"
    and "metadatas results = [] \<or> item00 (metadatas results) \<noteq> None"
  shows "\<exists>md. search_embedding (Inr results) =
           Some \<lparr>id' = employee_id, distance = d, similarity = 1 - (d / 2), metadata = md\<rparr>"
proof -
  from assms(1) obtain r rs where i: "ids results = (employee_id # r) # rs"
    by (rule item00_Some [THEN exE]) (erule exE)
  from assms(2) obtain ds dss where dd: "distances results = (d # ds) # dss"
    by (rule item00_Some [THEN exE]) (erule exE)
  show ?thesis
  proof (cases "metadatas results")
    case Nil
    have "search_embedding (Inr results) =
            Some \<lparr>id' = employee_id, distance = d, similarity = 1 - (d / 2), metadata = []\<rparr>"
      unfolding search_embedding_def by (simp add: i dd Nil)
    then show ?thesis by (rule exI)
  next
    case (Cons m ms)
    with assms(3) have "item00 (m # ms) \<noteq> None" by simp
    then obtain md mr where m: "m = md # mr" by (cases m) simp_all
    have "search_embedding (Inr results) =
            Some \<lparr>id' = employee_id, distance = d, similarity = 1 - (d / 2), metadata = md\<rparr>"
      unfolding search_embedding_def by (simp add: i dd Cons m)
    then show ?thesis by (rule exI)
  qed
qed

lemma example_query_ids: "item00 (ids example_query_result) = Some ''u1''"
  by (simp add: example_query_result_def)

lemma example_query_distances: "item00 (distances example_query_result) = Some 0.3"
  by (simp add: example_query_result_def)

lemma example_query_metadatas:
  "metadatas example_query_result = [] \<or> item00 (metadatas example_query_result) \<noteq> None"
  by (simp add: example_query_result_def)

text \<open>
  C2.  When the query returns a nearest neighbour at cosine distance \<open>d\<close>,
  \<open>search_embedding\<close> returns a match whose similarity is exactly \<open>1 - d / 2\<close>: distance 0
  gives 1, distance 1 gives 0.5, distance 2 gives 0, and distance 0.3 gives 0.85 (exactly,
  hence within 0.005).  The view reads this value from the match as it is.
\<close>

theorem search_embedding_similarity:
  assumes "item00 (ids results) = Some employee_id"
    and "item00 (distances results) = Some d"
    and "metadatas results = [] \<or> item00 (metadatas results) \<noteq> None"
  shows "map_option id' (search_embedding (Inr results)) = Some employee_id
         \<and> map_option distance (search_embedding (Inr results)) = Some d
         \<and> map_option similarity (search_embedding (Inr results)) = Some (1 - d / 2)
         \<and> (d = 0 \<longrightarrow> map_option similarity (search_embedding (Inr results)) = Some 1)
         \<and> (d = 1 \<longrightarrow> map_option similarity (search_embedding (Inr results)) = Some 0.5)
         \<and> (d = 2 \<longrightarrow> map_option similarity (search_embedding (Inr results)) = Some 0)
         \<and> (d = 0.3 \<longrightarrow> map_option similarity (search_embedding (Inr results)) = Some 0.85)"
proof -
  from search_embedding_candidate [OF assms] obtain md where
    m: "search_embedding (Inr results) =
          Some \<lparr>id' = employee_id, distance = d, similarity = 1 - (d / 2), metadata = md\<rparr>"
    by blast
  show ?thesis unfolding m by simp
qed

theorem search_embedding_similarity_witness:
  "item00 (ids example_query_result) = Some ''u1''
   \<and> item00 (distances example_query_result) = Some 0.3
   \<and> map_option similarity (search_embedding (Inr example_query_result)) = Some 0.85"
proof (intro conjI)
  show "item00 (ids example_query_result) = Some ''u1''" by (rule example_query_ids)
  show "item00 (distances example_query_result) = Some 0.3" by (rule example_query_distances)
  from search_embedding_similarity
         [OF example_query_ids example_query_distances example_query_metadatas]
  show "map_option similarity (search_embedding (Inr example_query_result)) = Some 0.85"
    by simp
qed

section \<open>Extraction failures\<close>

lemma str_int_2: "str_int 2 = ''2''"
  by (simp add: str_int_def)

lemma extract_try_two_faces:
  "extract_try (Inr two_faces) =
     Inl (FaceRecognitionError
           ''Multiple faces detected (2). Please provide an image with a single face.'')"
  by (simp add: extract_try_def two_faces_def str_int_2)

text \<open>
  C8 (the code departs from the claim).  For a photo on which \<open>DeepFace.represent\<close> finds
  two faces, \<open>extract_embedding\<close> builds the error "Multiple faces detected (2). ..." inside
  its \<open>try\<close> block, where its own \<open>except Exception\<close> clause catches it: the caller gets a
  \<open>FaceRecognitionError\<close> whose message is prefixed with "Failed to process image: ", not
  the error as it was raised.
\<close>

theorem multiple_faces_error_wrapped:
  "extract_embedding True path (Inr two_faces) =
     Inl (FaceRecognitionError
           (''Failed to process image: ''
            @ ''Multiple faces detected (2). Please provide an image with a single face.''))
   \<and> extract_embedding True path (Inr two_faces) \<noteq>
     Inl (FaceRecognitionError
           ''Multiple faces detected (2). Please provide an image with a single face.'')"
  by (simp add: extract_embedding_def extract_try_two_faces)

section \<open>The index write\<close>







section \<open>Enrolment\<close>

lemma extract_one_face:
  "extract_embedding True path (Inr [face]) = Inr (l2_normalize face)"
  by (simp add: extract_embedding_def extract_try_def)













section \<open>Verification\<close>

lemma verify_employee_extracted:
  assumes "method_post request" "form_valid request" "probe_faces env = Inr [face]"
  shows "verify_employee request env recs st =
           (match_response (search_embedding (query env)) (threshold env)
              (validation_error_text env) recs,
            st - {saved_name env})"
  using assms by (simp add: verify_employee_def Let_def extract_one_face finally_delete_def)

lemma verify_employee_storage:
  assumes "method_post request" "form_valid request"
  shows "snd (verify_employee request env recs st) = st - {saved_name env}"
  using assms
  by (simp add: verify_employee_def Let_def finally_delete_def split: sum.splits)

lemma search_embedding_failed: "search_embedding (Inl e) = None"
  by (simp add: search_embedding_def)

lemma search_embedding_no_candidate:
  "ids results = [] \<or> hd (ids results) = [] \<Longrightarrow> search_embedding (Inr results) = None"
  by (cases "ids results") (auto simp: search_embedding_def)

lemma post_request_valid: "method_post post_request" "form_valid post_request"
  by (simp_all add: post_request_def)

text \<open>
  C10.  In every verification call that stores the probe (a POST with a valid form), the
  temporary file is gone from the storage when the call returns, whatever
  \<open>DeepFace.represent\<close> and \<open>collection.query\<close> do (return or raise): the storage is what it
  was before the call without the temporary name.
\<close>

theorem verify_employee_temp_file_deleted:
  assumes "method_post request" and "form_valid request"
  shows "saved_name env \<notin> snd (verify_employee request env recs st)
         \<and> snd (verify_employee request env recs st) = st - {saved_name env}"
  using verify_employee_storage [OF assms, of env recs st] by simp

theorem verify_employee_temp_file_deleted_witness:
  "method_post post_request \<and> form_valid post_request
   \<and> fst (verify_employee post_request verification_no_face Map.empty {''employee_photos/jane.jpg''})
       = VerifyPage (Some ''No face detected in the image. Please provide a clear face photo.'')
   \<and> snd (verify_employee post_request verification_no_face Map.empty {''employee_photos/jane.jpg''})
       = {''employee_photos/jane.jpg''}
   \<and> ''temp/probe.jpg'' \<notin>
        snd (verify_employee post_request verification_match Map.empty {''employee_photos/jane.jpg''})"
proof -
  have n: "saved_name verification_no_face = ''temp/probe.jpg''"
    "saved_name verification_match = ''temp/probe.jpg''"
    by (simp_all add: verification_no_face_def verification_match_def)
  note t1 = verify_employee_temp_file_deleted
              [OF post_request_valid, of verification_no_face Map.empty
                 "{''employee_photos/jane.jpg''}"]
  note t2 = verify_employee_temp_file_deleted
              [OF post_request_valid, of verification_match Map.empty
                 "{''employee_photos/jane.jpg''}"]
  have r: "fst (verify_employee post_request verification_no_face Map.empty
                  {''employee_photos/jane.jpg''})
           = VerifyPage (Some ''No face detected in the image. Please provide a clear face photo.'')"
    by (simp add: verify_employee_def post_request_def verification_no_face_def Let_def
          extract_embedding_def extract_try_def)
  from t1 t2 r post_request_valid show ?thesis by (simp add: n)
qed

section \<open>The verification decision\<close>

lemma verify_employee_response:
  assumes "method_post request" "form_valid request" "probe_faces env = Inr [face]"
  shows "fst (verify_employee request env recs st) =
           match_response (search_embedding (query env)) (threshold env)
             (validation_error_text env) recs"
  by (simp add: verify_employee_extracted [OF assms])

lemma match_response_below:
  "similarity m < thr \<Longrightarrow>
   match_response (Some m) thr error_text recs = ResultBelowThreshold (similarity m) thr"
  by (simp add: match_response_def)

lemma match_response_found:
  "thr \<le> similarity m \<Longrightarrow> to_python (id' m) = Some key \<Longrightarrow> recs key = Some employee \<Longrightarrow>
   match_response (Some m) thr error_text recs =
     ResultMatch employee (similarity m) thr (if 0.8 \<le> similarity m then ''High'' else ''Medium'')"
  by (simp add: match_response_def)

lemma match_response_missing:
  "thr \<le> similarity m \<Longrightarrow> to_python (id' m) = Some key \<Longrightarrow> recs key = None \<Longrightarrow>
   match_response (Some m) thr error_text recs =
     VerifyPage (Some ''Match found in facial database but employee record not found.'')"
  by (simp add: match_response_def)

lemma match_response_invalid:
  "thr \<le> similarity m \<Longrightarrow> to_python (id' m) = None \<Longrightarrow>
   match_response (Some m) thr error_text recs =
     VerifyPage (Some (''An error occurred during verification: '' @ error_text (id' m)))"
  by (simp add: match_response_def)

lemma match_response_is_match:
  "(\<exists>employee s t c. match_response (Some m) thr error_text recs = ResultMatch employee s t c)
     \<longleftrightarrow> thr \<le> similarity m \<and> (\<exists>key. to_python (id' m) = Some key \<and> key \<in> dom recs)"
proof (cases "thr \<le> similarity m")
  case False
  then show ?thesis by (simp add: match_response_def)
next
  case True
  show ?thesis
  proof (cases "to_python (id' m)")
    case None
    with True show ?thesis by (simp add: match_response_invalid)
  next
    case (Some key)
    show ?thesis
    proof (cases "recs key")
      case None
      with True Some show ?thesis by (simp add: match_response_missing domIff)
    next
      case (Some employee)
      with True \<open>to_python (id' m) = Some key\<close> show ?thesis
        by (simp add: match_response_found domIff)
    qed
  qed
qed

text \<open>The key of a UUID written in the canonical way is that text.\<close>

lemma to_python_jane_uuid:
  "to_python ''6f1c2a9e-0b7d-4c3a-9e21-5d8f0a4b7c10'' = Some ''6f1c2a9e-0b7d-4c3a-9e21-5d8f0a4b7c10''"
  by code_simp

text \<open>
  Other spellings of the same UUID give the same key, and a text that is not a UUID gives
  none.
\<close>

lemma to_python_spellings:
  "to_python ''6F1C2A9E0B7D4C3A9E215D8F0A4B7C10'' = Some ''6f1c2a9e-0b7d-4c3a-9e21-5d8f0a4b7c10''"
  "to_python ''{6f1c2a9e-0b7d-4c3a-9e21-5d8f0a4b7c10}'' = Some ''6f1c2a9e-0b7d-4c3a-9e21-5d8f0a4b7c10''"
  "to_python ''urn:uuid:6f1c2a9e-0b7d-4c3a-9e21-5d8f0a4b7c10''
     = Some ''6f1c2a9e-0b7d-4c3a-9e21-5d8f0a4b7c10''"
  "to_python ''u1'' = None"
  by code_simp+

lemma search_close_candidate: "search_embedding (query verification_match) = Some close_match"
  by (simp add: verification_match_def close_query_result_def close_match_def
        search_embedding_def)

lemma probe_one_face:
  "probe_faces verification_match = Inr [[1, 0]]"
  "probe_faces verification_empty_index = Inr [[1, 0]]"
  "probe_faces verification_query_down = Inr [[1, 0]]"
  by (simp_all add: verification_match_def verification_empty_index_def
        verification_query_down_def one_face_def)

lemma close_match_values:
  "similarity close_match = 0.9" "id' close_match = ''6f1c2a9e-0b7d-4c3a-9e21-5d8f0a4b7c10''"
  "threshold verification_match = 0.65"
  by (simp_all add: close_match_def verification_match_def)

lemma close_match_key:
  "to_python (id' close_match) = Some ''6f1c2a9e-0b7d-4c3a-9e21-5d8f0a4b7c10''"
  by (simp only: close_match_values(2) to_python_jane_uuid)

lemma enrolled_employee_key: "uuid enrolled_employee = ''6f1c2a9e-0b7d-4c3a-9e21-5d8f0a4b7c10''"
  by (simp add: enrolled_employee_def jane_uuid_def)

lemma empty_index_query:
  "query verification_empty_index = Inr empty_query_result"
  "ids empty_query_result = [] \<or> hd (ids empty_query_result) = []"
  by (simp_all add: verification_empty_index_def empty_query_result_def)

lemma query_down: "query verification_query_down = Inl (OtherException ''could not connect to the index'')"
  by (simp add: verification_query_down_def)

text \<open>
  C3 (as amended).  Let the probe yield one face and the query a candidate of similarity
  \<open>s\<close>, and let \<open>t\<close> be the accept threshold.  If \<open>s < t\<close> the result is the no-match page
  that keeps \<open>s\<close> and \<open>t\<close>.  If \<open>s \<ge> t\<close>, the candidate's id is looked up as a UUID.  When
  the id is the text of a UUID and the table has the record of that UUID, the result is
  the match with that record and the confidence High exactly when \<open>s \<ge> 0.8\<close>, Medium
  otherwise; the bound 0.8 does not depend on \<open>t\<close>.  When the id is the text of a UUID
  and the table has no record of it, the result is the error "Match found in facial
  database but employee record not found.".  When the id is not the text of a UUID, the
  result is the error "An error occurred during verification: " followed by the text of
  the validation error.  So the result is a match exactly when \<open>s \<ge> t\<close> and the id is the
  text of a UUID that has a record.  With \<open>t = 0.65\<close> and the record found: 0.90 gives
  Match (High), 0.70 gives Match (Medium) and 0.50 gives no match.
\<close>

theorem verify_employee_decision:
  assumes "method_post request" and "form_valid request" and "probe_faces env = Inr [face]"
    and "search_embedding (query env) = Some m"
  shows "(similarity m < threshold env \<longrightarrow>
            fst (verify_employee request env recs st) =
              ResultBelowThreshold (similarity m) (threshold env))
         \<and> (threshold env \<le> similarity m \<longrightarrow>
              (\<forall>key employee. to_python (id' m) = Some key \<and> recs key = Some employee \<longrightarrow>
                 fst (verify_employee request env recs st) =
                   ResultMatch employee (similarity m) (threshold env)
                     (if 0.8 \<le> similarity m then ''High'' else ''Medium''))
              \<and> (\<forall>key. to_python (id' m) = Some key \<and> recs key = None \<longrightarrow>
                   fst (verify_employee request env recs st) =
                     VerifyPage
                       (Some ''Match found in facial database but employee record not found.''))
              \<and> (to_python (id' m) = None \<longrightarrow>
                   fst (verify_employee request env recs st) =
                     VerifyPage
                       (Some (''An error occurred during verification: ''
                              @ validation_error_text env (id' m)))))
         \<and> ((\<exists>employee s t c. fst (verify_employee request env recs st) = ResultMatch employee s t c)
              \<longleftrightarrow> threshold env \<le> similarity m
                  \<and> (\<exists>key. to_python (id' m) = Some key \<and> key \<in> dom recs))
         \<and> (\<forall>key employee.
               threshold env = 0.65 \<and> to_python (id' m) = Some key \<and> recs key = Some employee \<longrightarrow>
               (similarity m = 0.9 \<longrightarrow>
                  fst (verify_employee request env recs st) = ResultMatch employee 0.9 0.65 ''High'')
               \<and> (similarity m = 0.7 \<longrightarrow>
                  fst (verify_employee request env recs st) = ResultMatch employee 0.7 0.65 ''Medium'')
               \<and> (similarity m = 0.5 \<longrightarrow>
                  fst (verify_employee request env recs st) = ResultBelowThreshold 0.5 0.65))"
proof -
  have r: "fst (verify_employee request env recs st) =
             match_response (Some m) (threshold env) (validation_error_text env) recs"
    using verify_employee_response [OF assms(1,2,3)] assms(4) by simp
  have a: "similarity m < threshold env \<longrightarrow>
            fst (verify_employee request env recs st) =
              ResultBelowThreshold (similarity m) (threshold env)"
    unfolding r by (simp add: match_response_below)
  have b: "threshold env \<le> similarity m \<longrightarrow>
              (\<forall>key employee. to_python (id' m) = Some key \<and> recs key = Some employee \<longrightarrow>
                 fst (verify_employee request env recs st) =
                   ResultMatch employee (similarity m) (threshold env)
                     (if 0.8 \<le> similarity m then ''High'' else ''Medium''))
              \<and> (\<forall>key. to_python (id' m) = Some key \<and> recs key = None \<longrightarrow>
                   fst (verify_employee request env recs st) =
                     VerifyPage
                       (Some ''Match found in facial database but employee record not found.''))
              \<and> (to_python (id' m) = None \<longrightarrow>
                   fst (verify_employee request env recs st) =
                     VerifyPage
                       (Some (''An error occurred during verification: ''
                              @ validation_error_text env (id' m))))"
    unfolding r
    by (simp add: match_response_found match_response_missing match_response_invalid)
  have c: "(\<exists>employee s t c. fst (verify_employee request env recs st) = ResultMatch employee s t c)
              \<longleftrightarrow> threshold env \<le> similarity m
                  \<and> (\<exists>key. to_python (id' m) = Some key \<and> key \<in> dom recs)"
    unfolding r by (rule match_response_is_match)
  have d: "\<forall>key employee.
               threshold env = 0.65 \<and> to_python (id' m) = Some key \<and> recs key = Some employee \<longrightarrow>
               (similarity m = 0.9 \<longrightarrow>
                  fst (verify_employee request env recs st) = ResultMatch employee 0.9 0.65 ''High'')
               \<and> (similarity m = 0.7 \<longrightarrow>
                  fst (verify_employee request env recs st) = ResultMatch employee 0.7 0.65 ''Medium'')
               \<and> (similarity m = 0.5 \<longrightarrow>
                  fst (verify_employee request env recs st) = ResultBelowThreshold 0.5 0.65)"
    unfolding r by (simp add: match_response_def)
  from a b c d show ?thesis by (intro conjI)
qed

theorem verify_employee_decision_witness:
  "method_post post_request \<and> form_valid post_request
   \<and> probe_faces verification_match = Inr [[1, 0]]
   \<and> search_embedding (query verification_match) = Some close_match
   \<and> similarity close_match = 0.9 \<and> threshold verification_match = 0.65
   \<and> id' close_match = ''6f1c2a9e-0b7d-4c3a-9e21-5d8f0a4b7c10''
   \<and> to_python (id' close_match) = Some ''6f1c2a9e-0b7d-4c3a-9e21-5d8f0a4b7c10''
   \<and> uuid enrolled_employee = ''6f1c2a9e-0b7d-4c3a-9e21-5d8f0a4b7c10''
   \<and> fst (verify_employee post_request verification_match
             [''6f1c2a9e-0b7d-4c3a-9e21-5d8f0a4b7c10'' \<mapsto> enrolled_employee] {})
       = ResultMatch enrolled_employee 0.9 0.65 ''High''"
proof -
  note t = verify_employee_decision
             [OF post_request_valid probe_one_face(1) search_close_candidate,
              of "[''6f1c2a9e-0b7d-4c3a-9e21-5d8f0a4b7c10'' \<mapsto> enrolled_employee]" "{}"]
  have "fst (verify_employee post_request verification_match
               [''6f1c2a9e-0b7d-4c3a-9e21-5d8f0a4b7c10'' \<mapsto> enrolled_employee] {})
       = ResultMatch enrolled_employee 0.9 0.65 ''High''"
    using t by (simp add: close_match_values(1,3) close_match_key)
  then show ?thesis
    using post_request_valid probe_one_face(1) search_close_candidate close_match_values
      close_match_key enrolled_employee_key
    by (intro conjI)
qed

text \<open>
  A candidate of similarity 0.9 against the threshold 0.65, whose id is the text of a
  UUID that has no record in the table (the employee was deleted after the enrolment):
  the result is the error page, not a match.
\<close>

theorem missing_record_counterexample:
  "search_embedding (query verification_match) = Some close_match
   \<and> id' close_match = ''6f1c2a9e-0b7d-4c3a-9e21-5d8f0a4b7c10''
   \<and> to_python (id' close_match) = Some ''6f1c2a9e-0b7d-4c3a-9e21-5d8f0a4b7c10''
   \<and> threshold verification_match \<le> similarity close_match
   \<and> fst (verify_employee post_request verification_match Map.empty {})
       = VerifyPage (Some ''Match found in facial database but employee record not found.'')"
proof -
  have le: "threshold verification_match \<le> similarity close_match"
    by (simp add: close_match_values)
  have "fst (verify_employee post_request verification_match Map.empty {})
       = match_response (Some close_match) (threshold verification_match)
           (validation_error_text verification_match) Map.empty"
    using verify_employee_response [OF post_request_valid probe_one_face(1), of Map.empty "{}"]
    by (simp add: search_close_candidate)
  also have "\<dots> = VerifyPage (Some ''Match found in facial database but employee record not found.'')"
    using le close_match_key by (rule match_response_missing) simp
  finally show ?thesis
    using le search_close_candidate close_match_values(2) close_match_key by (intro conjI)
qed

section \<open>Verification without a candidate\<close>

text \<open>
  C7.  When the probe yields one face and the query returns no candidate (no list of
  ids, or an empty first list, as for an empty index), the result is the no-match page
  with the message "No matching employee found in the database.": the result page with
  no similarity, not the form page with an error.
\<close>

theorem verify_employee_empty_index:
  assumes "method_post request" and "form_valid request" and "probe_faces env = Inr [face]"
    and "query env = Inr results" and "ids results = [] \<or> hd (ids results) = []"
  shows "fst (verify_employee request env recs st) =
           ResultNoMatch ''No matching employee found in the database.''"
proof -
  have "search_embedding (query env) = None"
    unfolding assms(4) using assms(5) by (rule search_embedding_no_candidate)
  then show ?thesis
    by (simp add: verify_employee_response [OF assms(1,2,3)] match_response_def)
qed

theorem verify_employee_empty_index_witness:
  "method_post post_request \<and> form_valid post_request
   \<and> probe_faces verification_empty_index = Inr [[1, 0]]
   \<and> query verification_empty_index = Inr empty_query_result
   \<and> hd (ids empty_query_result) = []
   \<and> fst (verify_employee post_request verification_empty_index
             [''u1'' \<mapsto> example_employee] {})
       = ResultNoMatch ''No matching employee found in the database.''"
proof -
  note t = verify_employee_empty_index
             [OF post_request_valid probe_one_face(2) empty_index_query,
              of "[''u1'' \<mapsto> example_employee]" "{}"]
  have h: "hd (ids empty_query_result) = []" by (simp add: empty_query_result_def)
  from t h post_request_valid probe_one_face(2) empty_index_query(1) show ?thesis
    by (intro conjI)
qed

text \<open>
  C6 (as amended).  When the probe yields one face and the query raises,
  \<open>search_embedding\<close> returns \<open>None\<close> and the view returns the no-match page with the
  message "No matching employee found in the database.": the very response, and the very
  storage, of a call whose query returns an empty result.  No error reaches the caller.
\<close>

theorem verify_employee_query_failure:
  assumes "method_post request" and "form_valid request" and "probe_faces env = Inr [face]"
    and "query env = Inl e"
  shows "search_embedding (query env) = None
         \<and> fst (verify_employee request env recs st) =
             ResultNoMatch ''No matching employee found in the database.''
         \<and> verify_employee request env recs st =
             verify_employee request (env\<lparr>query := Inr empty_query_result\<rparr>) recs st"
proof -
  have n: "search_embedding (query env) = None"
    unfolding assms(4) by (rule search_embedding_failed)
  have f: "probe_faces (env\<lparr>query := Inr empty_query_result\<rparr>) = Inr [face]"
    using assms(3) by simp
  have n': "search_embedding (Inr empty_query_result) = None"
    by (simp add: search_embedding_def empty_query_result_def)
  have a: "fst (verify_employee request env recs st) =
             ResultNoMatch ''No matching employee found in the database.''"
    by (simp add: verify_employee_response [OF assms(1,2,3)] n match_response_def)
  have b: "verify_employee request env recs st =
             verify_employee request (env\<lparr>query := Inr empty_query_result\<rparr>) recs st"
    by (simp add: verify_employee_extracted [OF assms(1,2,3)]
          verify_employee_extracted [OF assms(1,2) f] n n')
  from n a b show ?thesis by (intro conjI)
qed

theorem verify_employee_query_failure_witness:
  "method_post post_request \<and> form_valid post_request
   \<and> probe_faces verification_query_down = Inr [[1, 0]]
   \<and> query verification_query_down = Inl (OtherException ''could not connect to the index'')
   \<and> fst (verify_employee post_request verification_query_down
             [''u1'' \<mapsto> example_employee] {})
       = ResultNoMatch ''No matching employee found in the database.''"
proof -
  note t = verify_employee_query_failure
             [OF post_request_valid probe_one_face(3) query_down,
              of "[''u1'' \<mapsto> example_employee]" "{}"]
  from t have "fst (verify_employee post_request verification_query_down
             [''u1'' \<mapsto> example_employee] {})
       = ResultNoMatch ''No matching employee found in the database.''"
    by (elim conjE)
  with post_request_valid probe_one_face(3) query_down show ?thesis by (intro conjI)
qed

text \<open>
  A query that raises and a query on an empty index give the same response.
\<close>

theorem query_failure_counterexample:
  "query verification_query_down = Inl (OtherException ''could not connect to the index'')
   \<and> query verification_empty_index = Inr empty_query_result
   \<and> fst (verify_employee post_request verification_query_down Map.empty {})
       = ResultNoMatch ''No matching employee found in the database.''
   \<and> fst (verify_employee post_request verification_empty_index Map.empty {})
       = ResultNoMatch ''No matching employee found in the database.''"
proof -
  have a: "fst (verify_employee post_request verification_query_down Map.empty {})
       = ResultNoMatch ''No matching employee found in the database.''"
    by (simp add: verify_employee_response [OF post_request_valid probe_one_face(3)]
          query_down search_embedding_failed match_response_def)
  have b: "fst (verify_employee post_request verification_empty_index Map.empty {})
       = ResultNoMatch ''No matching employee found in the database.''"
    by (simp add: verify_employee_response [OF post_request_valid probe_one_face(2)]
          empty_index_query(1) search_embedding_no_candidate empty_query_result_def
          match_response_def)
  from query_down empty_index_query(1) a b show ?thesis by (intro conjI)
qed

end
